theory Spec2Isabelle
  imports Complex_Main "HOL-Library.Product_Lexorder"
begin

section \<open>Performance estimation problems: the NoLips examples and the engine they call\<close>

text \<open>
  The repository's sources are three example scripts: \<open>wc_no_lips1\<close>, \<open>wc_no_lips2\<close> and
  \<open>wc_improved_interior_algorithm\<close>. Each is a sequence of calls into the engine
  (\<open>PEP\<close>, the function classes, \<open>bregman_gradient_step\<close>), and the engine's own modules
  are not among the sources. The scripts are translated from their source text. The
  engine is modelled from the specification (sections 3, 4 and 6 of the spec), and every
  definition of it says so.

  Numbers: the scripts compute with Python floats. Coefficients are modelled as exact
  rationals, division raising \<open>ZeroDivisionError\<close> on a zero divisor as Python's \<open>/\<close>
  does. Printing (\<open>verbose\<close>) is left out.
\<close>

subsection \<open>Errors\<close>

datatype status = Optimal | Infeasible | Unbounded | Error

datatype error =
    ZeroDivisionError
  | DegreeError
  | UnresolvedReferenceError
  | InfeasibleError status string
  | SolverFailure status string
  | NotFinite

text \<open>
  \<open>NotFinite\<close> is not an exception of the program: a quotient of NumPy floats with a zero
  divisor is \<open>inf\<close> or \<open>nan\<close>, with a warning, and the run goes on. Rationals have no such
  values, and the model of a script stops there with \<open>NotFinite\<close>.
\<close>

definition py_div :: "rat \<Rightarrow> rat \<Rightarrow> error + rat" where
  \<comment> \<open>Python's true division \<open>a / b\<close>.\<close>
  "py_div a b = (if b = 0 then Inl ZeroDivisionError else Inr (a / b))"

subsection \<open>Symbolic linear algebra (spec 3 and 4.1)\<close>

text \<open>
  Modelled from the spec: the \<open>Point\<close> and \<open>Expression\<close> classes of the engine are missing.
  A sparse mapping from keys to coefficients is a list of (key, coefficient) entries kept
  in increasing key order, so that two mappings with the same entries are the same list
  whatever the order of insertion.
\<close>

type_synonym 'k coeffs = "('k \<times> rat) list"

fun coeff_add :: "'k::linorder \<Rightarrow> rat \<Rightarrow> 'k coeffs \<Rightarrow> 'k coeffs" where
  "coeff_add k c [] = [(k, c)]"
| "coeff_add k c ((k', c') # m) =
     (if k = k' then (k', c' + c) # m
      else if k < k' then (k, c) # (k', c') # m
      else (k', c') # coeff_add k c m)"

fun coeffs_sum :: "'k::linorder coeffs \<Rightarrow> 'k coeffs \<Rightarrow> 'k coeffs" where
  "coeffs_sum m [] = m"
| "coeffs_sum m ((k, c) # m') = coeffs_sum (coeff_add k c m) m'"

definition coeffs_scale :: "rat \<Rightarrow> 'k coeffs \<Rightarrow> 'k coeffs" where
  "coeffs_scale a m = map (\<lambda>(k, c). (k, a * c)) m"

definition coeff_of :: "'k coeffs \<Rightarrow> 'k \<Rightarrow> rat" where
  "coeff_of m k = (case map_of m k of None \<Rightarrow> 0 | Some c \<Rightarrow> c)"

type_synonym point = "nat coeffs"

definition basis_point :: "nat \<Rightarrow> point" where
  "basis_point i = [(i, 1)]"

definition add_points :: "point \<Rightarrow> point \<Rightarrow> point" where
  "add_points p q = coeffs_sum p q"

definition scale_point :: "rat \<Rightarrow> point \<Rightarrow> point" where
  "scale_point a p = coeffs_scale a p"

definition sub_points :: "point \<Rightarrow> point \<Rightarrow> point" where
  "sub_points p q = add_points p (scale_point (- 1) q)"

record expression =
  lin :: "nat coeffs"
  bil :: "(nat \<times> nat) coeffs"

definition canon_pair :: "nat \<Rightarrow> nat \<Rightarrow> nat \<times> nat" where
  "canon_pair i j = (if i \<le> j then (i, j) else (j, i))"

fun pair_terms :: "(nat \<times> nat) coeffs \<Rightarrow> ((nat \<times> rat) \<times> (nat \<times> rat)) list \<Rightarrow> (nat \<times> nat) coeffs" where
  "pair_terms m [] = m"
| "pair_terms m (((i, a), (j, b)) # ps) = pair_terms (coeff_add (canon_pair i j) (a * b) m) ps"

definition zero_expr :: expression where
  "zero_expr = \<lparr>lin = [], bil = []\<rparr>"

definition value_expr :: "nat \<Rightarrow> expression" where
  "value_expr v = \<lparr>lin = [(v, 1)], bil = []\<rparr>"

definition innerProduct :: "point \<Rightarrow> point \<Rightarrow> expression" where
  "innerProduct p q = \<lparr>lin = [], bil = pair_terms [] (List.product p q)\<rparr>"

definition add_expr :: "expression \<Rightarrow> expression \<Rightarrow> expression" where
  "add_expr e1 e2 = \<lparr>lin = coeffs_sum (lin e1) (lin e2), bil = coeffs_sum (bil e1) (bil e2)\<rparr>"

definition scale_expr :: "rat \<Rightarrow> expression \<Rightarrow> expression" where
  "scale_expr a e = \<lparr>lin = coeffs_scale a (lin e), bil = coeffs_scale a (bil e)\<rparr>"

definition sub_expr :: "expression \<Rightarrow> expression \<Rightarrow> expression" where
  "sub_expr e1 e2 = add_expr e1 (scale_expr (- 1) e2)"




text \<open>
  Lowering of the bilinear part (spec 4.3, step 3): the coefficient on the pair \<open>(i, j)\<close>
  becomes the coefficient of \<open>G[i, j]\<close>. The Gram variable is symmetric, so the linear
  form is written as a coefficient matrix \<open>W\<close> with \<open>W[i, j] = W[j, i]\<close>, an off-diagonal
  coefficient shared between its two entries.
\<close>

definition gram_coeff :: "expression \<Rightarrow> nat \<Rightarrow> nat \<Rightarrow> rat" where
  "gram_coeff e i j =
     (if i = j then coeff_of (bil e) (i, i) else coeff_of (bil e) (canon_pair i j) / 2)"


subsection \<open>Basis registry, function classes, constraints and the problem state (spec 3)\<close>

text \<open>
  Modelled from the spec: the registry, the function classes and the \<open>PEP\<close> object of the
  engine are missing. A basis vector's id is its position in the registry. A function
  record holds its class parameters and its oracle triples \<open>(point, gradient, value)\<close>, in
  the order of the oracle calls. The field \<open>reuse_gradient\<close> is the keyword argument
  \<open>is_differentiable\<close> (\<open>reuse_gradient\<close> in the newer example) that some calls of
  \<open>declare_function\<close> pass, \<open>None\<close> when the call passes none; the spec gives it no role,
  and the oracle below follows the spec.
\<close>

datatype kind = Point_kind | Gradient_kind | Value_kind

record basis_vector =
  bv_id :: nat
  bv_kind :: kind
  bv_owner :: "nat option"

datatype diameter = Finite_diameter rat | Infinite_diameter

datatype function_class =
    ConvexFunction
  | SmoothConvexFunction rat
  | StronglyConvexFunction rat
  | ConvexIndicatorFunction diameter

datatype rule = Convexity | Smoothness | Strong_convexity | Stationarity | Diameter | Value_fixing

datatype relation = Leq | Eq

datatype tag = Interpolation nat nat nat rule | Initial | User | Implicit_optimality

record constraint =
  c_expr :: expression
  c_rel :: relation
  c_bound :: rat
  c_tag :: tag

definition leq :: "expression \<Rightarrow> rat \<Rightarrow> constraint" where
  "leq e b = \<lparr>c_expr = e, c_rel = Leq, c_bound = b, c_tag = User\<rparr>"

definition eq :: "expression \<Rightarrow> rat \<Rightarrow> constraint" where
  "eq e b = \<lparr>c_expr = e, c_rel = Eq, c_bound = b, c_tag = User\<rparr>"

type_synonym triple = "point \<times> point \<times> expression"

record function_rec =
  fclass :: function_class
  reuse_gradient :: "bool option"
  triples :: "triple list"

record problem_state =
  registry :: "basis_vector list"
  funcs :: "function_rec list"
  ledger :: "constraint list"
  metrics :: "expression list"
  initial_point :: "point option"

definition new_problem :: problem_state where
  \<comment> \<open>\<open>problem = PEP()\<close>\<close>
  "new_problem = \<lparr>registry = [], funcs = [], ledger = [], metrics = [], initial_point = None\<rparr>"

text \<open>
  An engine call takes the problem state and returns an error or its result with the
  new state; \<open>and_then\<close> runs one call after another and stops at the first error, as a
  raised exception does.
\<close>

type_synonym 'a op = "problem_state \<Rightarrow> error + ('a \<times> problem_state)"

definition return :: "'a \<Rightarrow> 'a op" where
  "return a st = Inr (a, st)"

definition raise :: "error \<Rightarrow> 'a op" where
  "raise e st = Inl e"

fun continue_with :: "error + ('a \<times> problem_state) \<Rightarrow> ('a \<Rightarrow> 'b op) \<Rightarrow> error + ('b \<times> problem_state)" where
  "continue_with (Inl e) f = Inl e"
| "continue_with (Inr r) f = f (fst r) (snd r)"

definition and_then :: "'a op \<Rightarrow> ('a \<Rightarrow> 'b op) \<Rightarrow> 'b op" where
  "and_then m f st = continue_with (m st) f"

fun for_loop :: "nat list \<Rightarrow> (nat \<Rightarrow> 's \<Rightarrow> 's op) \<Rightarrow> 's \<Rightarrow> 's op" where
  \<comment> \<open>\<open>for i in range(n)\<close> is \<open>for_loop [0..<nat n]\<close>; the loop variables are \<open>'s\<close>.\<close>
  "for_loop [] body s = return s"
| "for_loop (i # rest) body s = and_then (body i s) (for_loop rest body)"

definition new_basis :: "kind \<Rightarrow> nat option \<Rightarrow> nat op" where
  "new_basis k own st =
     Inr (length (registry st),
          st\<lparr>registry := registry st @ [\<lparr>bv_id = length (registry st), bv_kind = k, bv_owner = own\<rparr>]\<rparr>)"

definition new_point :: "point op" where
  "new_point = and_then (new_basis Point_kind None) (\<lambda>i. return (basis_point i))"

text \<open>
  A function handle is a weighted sum of declared functions (the scripts write
  \<open>func1 + func2\<close> and \<open>(d + func1) / L\<close>): a mapping from function ids to weights.
\<close>

type_synonym fn = "nat coeffs"

definition declare_function :: "function_class \<Rightarrow> bool option \<Rightarrow> fn op" where
  "declare_function cls reuse st =
     Inr ([(length (funcs st), 1)],
          st\<lparr>funcs := funcs st @ [\<lparr>fclass = cls, reuse_gradient = reuse, triples = []\<rparr>]\<rparr>)"

definition fn_add :: "fn \<Rightarrow> fn \<Rightarrow> fn" where
  "fn_add f g = coeffs_sum f g"

definition fn_div :: "fn \<Rightarrow> rat \<Rightarrow> fn op" where
  "fn_div f c = (if c = 0 then raise ZeroDivisionError else return (coeffs_scale (1 / c) f))"

text \<open>
  The oracle of a declared function (spec 3, the invariant of a function-class instance):
  a point already queried on the function gives back the recorded gradient and value;
  a new point gets a fresh gradient and a fresh value basis vector, and the triple is
  recorded.
\<close>

definition leaf_oracle :: "nat \<Rightarrow> point \<Rightarrow> (point \<times> expression) op" where
  "leaf_oracle fid x st =
     (if length (funcs st) \<le> fid then Inl UnresolvedReferenceError
      else (case find (\<lambda>t. fst t = x) (triples (funcs st ! fid)) of
              Some (p, g, v) \<Rightarrow> Inr ((g, v), st)
            | None \<Rightarrow>
                and_then (new_basis Gradient_kind (Some fid)) (\<lambda>gid.
                and_then (new_basis Value_kind (Some fid)) (\<lambda>vid st'.
                  Inr ((basis_point gid, value_expr vid),
                       st'\<lparr>funcs := (funcs st')[fid :=
                          (funcs st' ! fid)\<lparr>triples := triples (funcs st' ! fid)
                             @ [(x, basis_point gid, value_expr vid)]\<rparr>]\<rparr>))) st))"

fun oracle_leaves :: "fn \<Rightarrow> point \<Rightarrow> point \<times> expression \<Rightarrow> (point \<times> expression) op" where
  "oracle_leaves [] x acc = return acc"
| "oracle_leaves ((fid, w) # fs) x acc =
     and_then (leaf_oracle fid x) (\<lambda>(g, v).
       oracle_leaves fs x (add_points (fst acc) (scale_point w g), add_expr (snd acc) (scale_expr w v)))"

definition fn_oracle :: "fn \<Rightarrow> point \<Rightarrow> (point \<times> expression) op" where
  \<comment> \<open>\<open>g, f = func.oracle(x)\<close>: the weighted sum of the leaves' gradients and values\<close>
  "fn_oracle f x = oracle_leaves f x ([], zero_expr)"

definition fn_value :: "fn \<Rightarrow> point \<Rightarrow> expression op" where
  \<comment> \<open>\<open>func.value(x)\<close>, also written \<open>func(x)\<close>\<close>
  "fn_value f x = and_then (fn_oracle f x) (\<lambda>(g, v). return v)"

definition add_constraint :: "constraint \<Rightarrow> unit op" where
  "add_constraint c st = Inr ((), st\<lparr>ledger := ledger st @ [c]\<rparr>)"

definition set_initial_point :: "point op" where
  "set_initial_point =
     and_then new_point (\<lambda>x st. Inr (x, st\<lparr>initial_point := Some x\<rparr>))"

definition set_initial_condition :: "constraint \<Rightarrow> unit op" where
  "set_initial_condition c = add_constraint (c\<lparr>c_tag := Initial\<rparr>)"

definition set_performance_metric :: "expression \<Rightarrow> unit op" where
  \<comment> \<open>The metrics accumulate: the examples' output reads
      \<open>performance measure is minimum of 1 element(s)\<close>.\<close>
  "set_performance_metric e st = Inr ((), st\<lparr>metrics := metrics st @ [e]\<rparr>)"

text \<open>
  Primitive steps (spec 4.2): the output is a fresh basis point, and the step's
  first-order condition is added as a constraint on the oracle of the mirror map at that
  point. A constraint holds an expression, so the vector equation \<open>r = 0\<close> is written
  \<open>\<langle>r, r\<rangle> = 0\<close>. For the Bregman gradient step from \<open>x0\<close>, with \<open>gx0\<close> the gradient of
  the objective and \<open>sx0\<close> the gradient of the mirror map at \<open>x0\<close>, the condition is
  \<open>sx - sx0 + gamma * gx0 = 0\<close>. A stationary point of a function is declared the same
  way, with the condition that the gradient there is zero.
\<close>

definition residual_zero :: "point \<Rightarrow> constraint" where
  "residual_zero r = (eq (innerProduct r r) 0)\<lparr>c_tag := Implicit_optimality\<rparr>"

definition bregman_gradient_step ::
  "point \<Rightarrow> point \<Rightarrow> fn \<Rightarrow> rat \<Rightarrow> (point \<times> point \<times> expression) op" where
  "bregman_gradient_step gx0 sx0 mirror_map gamma =
     and_then new_point (\<lambda>x.
     and_then (fn_oracle mirror_map x) (\<lambda>(sx, hx).
     and_then (add_constraint
                 (residual_zero (add_points (sub_points sx sx0) (scale_point gamma gx0)))) (\<lambda>_.
     return (x, sx, hx))))"

definition stationary_point :: "fn \<Rightarrow> point op" where
  "stationary_point f =
     and_then new_point (\<lambda>x.
     and_then (fn_oracle f x) (\<lambda>(g, v).
     and_then (add_constraint (residual_zero g)) (\<lambda>_.
     return x)))"

subsection \<open>Interpolation rules (spec 4.2)\<close>

text \<open>
  Modelled from the spec: the function classes' constraint generators are missing. The
  generator of a class is applied to every ordered pair of distinct oracle triples
  \<open>(x\<^sub>i, g\<^sub>i, f\<^sub>i)\<close>, \<open>(x\<^sub>j, g\<^sub>j, f\<^sub>j)\<close> of the function, and every constraint is tagged
  with the function, the pair and the rule. An inequality \<open>f\<^sub>i \<ge> f\<^sub>j + t\<close> is stored as
  \<open>f\<^sub>j - f\<^sub>i + t \<le> 0\<close>, and a bound on a norm as the bound on its square. The convex
  indicator fixes the value of each of its triples to 0, one constraint per triple: the
  documented output of \<open>wc_improved_interior_algorithm\<close> counts 49 constraints for its
  indicator function, which has 7 oracle triples, and 42 for the other two functions.
  The relatively-smooth class of the spec's table is not modelled: no source declares a
  function of that class, and the spec does not say what its generator does with a point
  the kernel was not queried at.
\<close>

definition oracle_pairs :: "triple list \<Rightarrow> ((nat \<times> triple) \<times> (nat \<times> triple)) list" where
  "oracle_pairs ts =
     filter (\<lambda>(a, b). fst a \<noteq> fst b) (List.product (enumerate 0 ts) (enumerate 0 ts))"

definition tagged :: "nat \<Rightarrow> nat \<Rightarrow> nat \<Rightarrow> rule \<Rightarrow> constraint \<Rightarrow> constraint" where
  "tagged fid i j r c = c\<lparr>c_tag := Interpolation fid i j r\<rparr>"

definition sq_norm :: "point \<Rightarrow> expression" where
  "sq_norm p = innerProduct p p"

fun gradient_gap :: "triple \<Rightarrow> triple \<Rightarrow> expression" where
  \<comment> \<open>\<open>f\<^sub>j - f\<^sub>i + \<langle>g\<^sub>j, x\<^sub>i - x\<^sub>j\<rangle>\<close>\<close>
  "gradient_gap (xi, gi, fi) (xj, gj, fj) =
     add_expr (sub_expr fj fi) (innerProduct gj (sub_points xi xj))"

fun interpolate :: "function_class \<Rightarrow> nat \<Rightarrow> nat \<times> triple \<Rightarrow> nat \<times> triple \<Rightarrow> constraint list" where
  "interpolate ConvexFunction fid (i, ti) (j, tj) =
     [tagged fid i j Convexity (leq (gradient_gap ti tj) 0)]"
| "interpolate (SmoothConvexFunction L) fid (i, (xi, gi, fi)) (j, (xj, gj, fj)) =
     [tagged fid i j Smoothness
        (leq (add_expr (gradient_gap (xi, gi, fi) (xj, gj, fj))
                (scale_expr (1 / (2 * L)) (sq_norm (sub_points gi gj)))) 0)]"
| "interpolate (StronglyConvexFunction mu) fid (i, (xi, gi, fi)) (j, (xj, gj, fj)) =
     [tagged fid i j Strong_convexity
        (leq (add_expr (gradient_gap (xi, gi, fi) (xj, gj, fj))
                (scale_expr (mu / 2) (sq_norm (sub_points xi xj)))) 0)]"
| "interpolate (ConvexIndicatorFunction D) fid (i, (xi, gi, fi)) (j, (xj, gj, fj)) =
     tagged fid i j Stationarity (leq (innerProduct gj (sub_points xi xj)) 0)
     # (case D of
          Finite_diameter d \<Rightarrow> [tagged fid i j Diameter (leq (sq_norm (sub_points xi xj)) (d * d))]
        | Infinite_diameter \<Rightarrow> [])"

definition pair_constraints :: "nat \<Rightarrow> function_rec \<Rightarrow> constraint list" where
  "pair_constraints fid f =
     concat (map (\<lambda>(a, b). interpolate (fclass f) fid a b) (oracle_pairs (triples f)))"

definition value_fixing :: "nat \<Rightarrow> function_rec \<Rightarrow> constraint list" where
  "value_fixing fid f =
     map (\<lambda>(i, t). tagged fid i i Value_fixing (eq (snd (snd t)) 0)) (enumerate 0 (triples f))"

definition add_class_constraints :: "nat \<Rightarrow> function_rec \<Rightarrow> error + constraint list" where
  \<comment> \<open>\<open>1 / (2 * L)\<close> raises on \<open>L = 0\<close>\<close>
  "add_class_constraints fid f =
     (case fclass f of
        SmoothConvexFunction L \<Rightarrow>
          if L = 0 then Inl ZeroDivisionError else Inr (pair_constraints fid f)
      | ConvexIndicatorFunction D \<Rightarrow> Inr (value_fixing fid f @ pair_constraints fid f)
      | _ \<Rightarrow> Inr (pair_constraints fid f))"

fun collect :: "(error + 'a) list \<Rightarrow> error + 'a list" where
  "collect [] = Inr []"
| "collect (x # xs) =
     (case x of Inl e \<Rightarrow> Inl e
      | Inr a \<Rightarrow> (case collect xs of Inl e \<Rightarrow> Inl e | Inr as \<Rightarrow> Inr (a # as)))"

definition interpolation_constraints :: "problem_state \<Rightarrow> error + constraint list list" where
  "interpolation_constraints st =
     collect (map (\<lambda>(fid, f). add_class_constraints fid f) (enumerate 0 (funcs st)))"

subsection \<open>The orchestrator's \<open>solve\<close>, the solver adapter and the certifier (spec 4.3, 4.4, 6)\<close>

text \<open>
  Modelled from the spec: \<open>PEP.solve\<close>, the solver wrapper and the proof reconstruction
  are missing. Lowering replaces a basis-value id by its index in \<open>F\<close> and a pair of
  basis-point ids by the pair of their indices in \<open>G\<close>; an id that the registry does not
  hold is an \<open>UnresolvedReferenceError\<close>. A lowered linear form is again an expression,
  over indices.
\<close>

fun index_of :: "nat list \<Rightarrow> nat \<Rightarrow> nat option" where
  "index_of [] k = None"
| "index_of (x # xs) k = (if x = k then Some 0 else map_option Suc (index_of xs k))"

definition gram_ids :: "problem_state \<Rightarrow> nat list" where
  "gram_ids st = map bv_id (filter (\<lambda>b. bv_kind b \<noteq> Value_kind) (registry st))"

definition value_ids :: "problem_state \<Rightarrow> nat list" where
  "value_ids st = map bv_id (filter (\<lambda>b. bv_kind b = Value_kind) (registry st))"

definition lower_lin :: "nat list \<Rightarrow> nat \<times> rat \<Rightarrow> error + (nat \<times> rat)" where
  "lower_lin V kc =
     (case index_of V (fst kc) of
        None \<Rightarrow> Inl UnresolvedReferenceError
      | Some i \<Rightarrow> Inr (i, snd kc))"

definition lower_bil :: "nat list \<Rightarrow> (nat \<times> nat) \<times> rat \<Rightarrow> error + ((nat \<times> nat) \<times> rat)" where
  "lower_bil P kc =
     (case index_of P (fst (fst kc)) of
        None \<Rightarrow> Inl UnresolvedReferenceError
      | Some a \<Rightarrow>
          (case index_of P (snd (fst kc)) of
             None \<Rightarrow> Inl UnresolvedReferenceError
           | Some b \<Rightarrow> Inr (canon_pair a b, snd kc)))"

definition lower_expr :: "nat list \<Rightarrow> nat list \<Rightarrow> expression \<Rightarrow> error + expression" where
  "lower_expr P V e =
     (case collect (map (lower_lin V) (lin e)) of
        Inl err \<Rightarrow> Inl err
      | Inr l \<Rightarrow>
          (case collect (map (lower_bil P) (bil e)) of
             Inl err \<Rightarrow> Inl err
           | Inr b \<Rightarrow> Inr \<lparr>lin = coeffs_sum [] l, bil = coeffs_sum [] b\<rparr>))"

definition lower_constraint :: "nat list \<Rightarrow> nat list \<Rightarrow> constraint \<Rightarrow> error + constraint" where
  "lower_constraint P V c =
     (case lower_expr P V (c_expr c) of
        Inl err \<Rightarrow> Inl err
      | Inr e \<Rightarrow> Inr (c\<lparr>c_expr := e\<rparr>))"

record sdp =
  dim_G :: nat
  dim_F :: nat
  sdp_constraints :: "constraint list"
  sdp_objectives :: "expression list"
  maximize :: bool

definition assemble :: "problem_state \<Rightarrow> error + sdp" where
  \<comment> \<open>steps 1 to 4 of \<open>solve\<close>; the objective is the minimum of the lowered metrics\<close>
  "assemble st =
     (case interpolation_constraints st of
        Inl err \<Rightarrow> Inl err
      | Inr ics \<Rightarrow>
          (case collect (map (lower_constraint (gram_ids st) (value_ids st))
                           (concat ics @ ledger st)) of
             Inl err \<Rightarrow> Inl err
           | Inr cs \<Rightarrow>
               (case collect (map (lower_expr (gram_ids st) (value_ids st)) (metrics st)) of
                  Inl err \<Rightarrow> Inl err
                | Inr objs \<Rightarrow>
                    Inr \<lparr>dim_G = length (gram_ids st), dim_F = length (value_ids st),
                         sdp_constraints = cs, sdp_objectives = objs, maximize = True\<rparr>)))"

text \<open>
  The adapter is external. It is a parameter: \<open>adapter cfg p k\<close> is its report on the
  \<open>k\<close>-th submission of the program \<open>p\<close> (the first submission is number 0), so that a
  retry, which the spec excludes, would be visible as a use of a later report.
\<close>

record adapter_result =
  r_status :: status
  r_message :: string
  primal_value :: rat
  primal_G :: "rat list list"
  primal_F :: "rat list"
  dual_value :: rat
  dual_scalars :: "rat list"
  dual_matrix :: "rat list list"
  objective_weights :: "rat list"

record solver_config =
  adapter :: "sdp \<Rightarrow> nat \<Rightarrow> adapter_result"
  tolerance :: rat

text \<open>
  The certifier (spec 4.4). The residual is
  \<open>objective_matrix_form - \<Sum>\<^sub>c \<lambda>\<^sub>c * constraint_matrix_form c - S\<close>; with several metrics
  the objective's form is their combination with the adapter's weights. The
  reconstruction error is the Frobenius norm of the residual; the model keeps its square,
  a rational, and compares it with the square of the tolerance. The positive
  semidefiniteness of \<open>S\<close> and the slackness magnitude are numerical checks that are not
  modelled.
\<close>

definition entry :: "rat list list \<Rightarrow> nat \<Rightarrow> nat \<Rightarrow> rat" where
  "entry S r c = (if r < length S \<and> c < length (S ! r) then S ! r ! c else 0)"

definition weighted_coeff :: "rat list \<Rightarrow> expression list \<Rightarrow> nat \<Rightarrow> nat \<Rightarrow> rat" where
  "weighted_coeff ws es r c = sum_list (map (\<lambda>(w, e). w * gram_coeff e r c) (zip ws es))"

definition residual_entry :: "sdp \<Rightarrow> adapter_result \<Rightarrow> nat \<Rightarrow> nat \<Rightarrow> rat" where
  "residual_entry p res r c =
     weighted_coeff (objective_weights res) (sdp_objectives p) r c
     - weighted_coeff (dual_scalars res) (map c_expr (sdp_constraints p)) r c
     - entry (dual_matrix res) r c"

definition reconstruction_error_sq :: "sdp \<Rightarrow> adapter_result \<Rightarrow> rat" where
  "reconstruction_error_sq p res =
     sum_list (map (\<lambda>r. sum_list (map (\<lambda>c. residual_entry p res r c * residual_entry p res r c)
                                      [0..<dim_G p])) [0..<dim_G p])"

definition duality_gap :: "adapter_result \<Rightarrow> rat" where
  "duality_gap res = \<bar>primal_value res - dual_value res\<bar>"

definition dual_feasible :: "sdp \<Rightarrow> adapter_result \<Rightarrow> bool" where
  "dual_feasible p res =
     list_all (\<lambda>(l, c). c_rel c = Eq \<or> 0 \<le> l) (zip (dual_scalars res) (sdp_constraints p))"

definition norm_exceeds :: "rat \<Rightarrow> rat \<Rightarrow> bool" where
  \<comment> \<open>the norm whose square is \<open>s\<close> is greater than \<open>tol\<close>\<close>
  "norm_exceeds s tol = (tol < 0 \<or> tol * tol < s)"

datatype warning = CertificationWarning rat rat

record diagnostics =
  size_G :: nat
  size_F :: nat
  constraint_counts :: "nat list"
  solver_status :: status
  error_sq :: rat
  gap :: rat
  duals_nonnegative :: bool
  warnings :: "warning list"

definition certify :: "solver_config \<Rightarrow> problem_state \<Rightarrow> sdp \<Rightarrow> adapter_result \<Rightarrow> diagnostics" where
  "certify cfg st p res =
     \<lparr>size_G = dim_G p, size_F = dim_F p,
      constraint_counts =
        (case interpolation_constraints st of Inl err \<Rightarrow> [] | Inr ics \<Rightarrow> map length ics),
      solver_status = r_status res,
      error_sq = reconstruction_error_sq p res,
      gap = duality_gap res,
      duals_nonnegative = dual_feasible p res,
      warnings =
        (if norm_exceeds (reconstruction_error_sq p res) (tolerance cfg)
            \<or> tolerance cfg < duality_gap res
         then [CertificationWarning (reconstruction_error_sq p res) (duality_gap res)]
         else [])\<rparr>"

definition solve :: "solver_config \<Rightarrow> problem_state \<Rightarrow> error + (rat \<times> diagnostics)" where
  "solve cfg st =
     (case assemble st of
        Inl err \<Rightarrow> Inl err
      | Inr p \<Rightarrow>
          (case r_status (adapter cfg p 0) of
             Optimal \<Rightarrow> Inr (primal_value (adapter cfg p 0), certify cfg st p (adapter cfg p 0))
           | Infeasible \<Rightarrow> Inl (InfeasibleError Infeasible (r_message (adapter cfg p 0)))
           | Unbounded \<Rightarrow> Inl (InfeasibleError Unbounded (r_message (adapter cfg p 0)))
           | Error \<Rightarrow> Inl (SolverFailure Error (r_message (adapter cfg p 0)))))"

subsection \<open>The example \<open>wc_no_lips2\<close> (No\_Lips\_2.py)\<close>

text \<open>
  The script, line by line. \<open>no_lips2_setup\<close> is lines 43 to 75 (the declarations, the
  optimal point, the starting point, the initial condition and the initial values of the
  loop variables), \<open>no_lips2_body\<close> the body of the loop (lines 77 to 85), and
  \<open>wc_no_lips2\<close> the whole function. The solver configuration is an explicit parameter;
  the script calls \<open>solve\<close> with the engine's defaults.
\<close>

record no_lips2_vars =
  v2_x1 :: point
  v2_x2 :: point
  v2_gfx :: point
  v2_ghx :: point
  v2_hx1 :: expression
  v2_hx2 :: expression

definition no_lips2_setup :: "rat \<Rightarrow> ((fn \<times> fn \<times> fn) \<times> no_lips2_vars) op" where
  "no_lips2_setup L =
     and_then (declare_function ConvexFunction None) (\<lambda>d.
     and_then (declare_function ConvexFunction None) (\<lambda>func1.
     and_then (fn_div (fn_add d func1) L) (\<lambda>h.
     and_then (declare_function (ConvexIndicatorFunction Infinite_diameter) None) (\<lambda>func2.
     and_then (stationary_point (fn_add func1 func2)) (\<lambda>xs.
     and_then (fn_value (fn_add func1 func2) xs) (\<lambda>Fs.
     and_then (fn_oracle func1 xs) (\<lambda>(gfs, fs).
     and_then (fn_oracle h xs) (\<lambda>(ghs, hs).
     and_then set_initial_point (\<lambda>x0.
     and_then (fn_oracle h x0) (\<lambda>(gh0, h0).
     and_then (fn_oracle func1 x0) (\<lambda>(gf0, f0).
     and_then (set_initial_condition
                 (leq (sub_expr (sub_expr hs h0) (innerProduct gh0 (sub_points xs x0))) 1)) (\<lambda>_.
     return ((func1, func2, h),
             \<lparr>v2_x1 = x0, v2_x2 = x0, v2_gfx = gf0, v2_ghx = gh0,
              v2_hx1 = h0, v2_hx2 = h0\<rparr>)))))))))))))"

definition no_lips2_body ::
  "fn \<times> fn \<times> fn \<Rightarrow> rat \<Rightarrow> nat \<Rightarrow> no_lips2_vars \<Rightarrow> no_lips2_vars op" where
  "no_lips2_body fs gamma i s =
     (case fs of (func1, func2, h) \<Rightarrow>
     and_then (bregman_gradient_step (v2_gfx s) (v2_ghx s) (fn_add func2 h) gamma) (\<lambda>(x2, sx, hx).
     and_then (fn_oracle func1 x2) (\<lambda>(gfx, fx).
     and_then (fn_oracle h x2) (\<lambda>(ghx, hx2).
     and_then (set_performance_metric
                 (sub_expr (sub_expr (v2_hx1 s) hx2) (innerProduct ghx (sub_points (v2_x1 s) x2)))) (\<lambda>_.
     return \<lparr>v2_x1 = x2, v2_x2 = x2, v2_gfx = gfx, v2_ghx = ghx,
             v2_hx1 = hx2, v2_hx2 = hx2\<rparr>)))))"

definition no_lips2_problem :: "rat \<Rightarrow> rat \<Rightarrow> int \<Rightarrow> no_lips2_vars op" where
  \<comment> \<open>lines 43 to 85: everything before \<open>solve\<close>\<close>
  "no_lips2_problem L gamma n =
     and_then (no_lips2_setup L) (\<lambda>(fs, s0). for_loop [0..<nat n] (no_lips2_body fs gamma) s0)"

definition no_lips2_solve :: "solver_config \<Rightarrow> rat \<Rightarrow> rat \<Rightarrow> int \<Rightarrow> error + rat" where
  \<comment> \<open>up to line 88: \<open>pepit_tau = problem.solve(verbose=verbose)\<close>\<close>
  "no_lips2_solve cfg L gamma n =
     (case no_lips2_problem L gamma n new_problem of
        Inl err \<Rightarrow> Inl err
      | Inr (s, st) \<Rightarrow>
          (case solve cfg st of Inl err \<Rightarrow> Inl err | Inr (tau, d) \<Rightarrow> Inr tau))"

definition wc_no_lips2 :: "solver_config \<Rightarrow> rat \<Rightarrow> rat \<Rightarrow> int \<Rightarrow> error + (rat \<times> rat)" where
  \<comment> \<open>line 91: \<open>theoretical_tau = 2 / (n - 1) / n\<close>\<close>
  "wc_no_lips2 cfg L gamma n =
     (case no_lips2_solve cfg L gamma n of
        Inl err \<Rightarrow> Inl err
      | Inr pepit_tau \<Rightarrow>
          (case py_div 2 (of_int (n - 1)) of
             Inl err \<Rightarrow> Inl err
           | Inr q \<Rightarrow>
               (case py_div q (of_int n) of
                  Inl err \<Rightarrow> Inl err
                | Inr theoretical_tau \<Rightarrow> Inr (pepit_tau, theoretical_tau))))"

subsection \<open>The example \<open>wc_no_lips1\<close> (no\_lips\_1.py)\<close>

text \<open>
  \<open>no_lips1_setup\<close> is lines 88 to 117, \<open>no_lips1_body\<close> the body of the loop (lines 119
  and 120), \<open>no_lips1_problem\<close> everything before \<open>solve\<close> (to line 123).
\<close>

record no_lips1_vars =
  v1_gfx :: point
  v1_ffx :: expression
  v1_ghx :: point

definition no_lips1_setup :: "rat \<Rightarrow> ((fn \<times> fn \<times> fn) \<times> expression \<times> no_lips1_vars) op" where
  "no_lips1_setup L =
     and_then (declare_function ConvexFunction None) (\<lambda>d.
     and_then (declare_function ConvexFunction (Some True)) (\<lambda>func1.
     and_then (fn_div (fn_add d func1) L) (\<lambda>h.
     and_then (declare_function (ConvexIndicatorFunction Infinite_diameter) (Some True)) (\<lambda>func2.
     and_then (stationary_point (fn_add func1 func2)) (\<lambda>xs.
     and_then (fn_oracle h xs) (\<lambda>(ghs, hs).
     and_then (fn_oracle func1 xs) (\<lambda>(gfs, fs).
     and_then set_initial_point (\<lambda>x0.
     and_then (fn_oracle h x0) (\<lambda>(gh0, h0).
     and_then (fn_oracle func1 x0) (\<lambda>(gf0, f0).
     and_then (set_initial_condition
                 (leq (sub_expr (sub_expr hs h0) (innerProduct gh0 (sub_points xs x0))) 1)) (\<lambda>_.
     return ((fn_add func1 func2, func2, h), fs,
             \<lparr>v1_gfx = gf0, v1_ffx = f0, v1_ghx = gh0\<rparr>))))))))))))"

definition no_lips1_body ::
  "fn \<times> fn \<times> fn \<Rightarrow> rat \<Rightarrow> nat \<Rightarrow> no_lips1_vars \<Rightarrow> no_lips1_vars op" where
  "no_lips1_body fs gamma i s =
     (case fs of (func, func2, h) \<Rightarrow>
     and_then (bregman_gradient_step (v1_gfx s) (v1_ghx s) (fn_add func2 h) gamma) (\<lambda>(x, ghx, hx).
     and_then (fn_oracle func x) (\<lambda>(gfx, ffx).
     return \<lparr>v1_gfx = gfx, v1_ffx = ffx, v1_ghx = ghx\<rparr>)))"

definition no_lips1_problem :: "rat \<Rightarrow> rat \<Rightarrow> int \<Rightarrow> unit op" where
  "no_lips1_problem L gamma n =
     and_then (no_lips1_setup L) (\<lambda>(fs, fstar, s0).
     and_then (for_loop [0..<nat n] (no_lips1_body fs gamma) s0) (\<lambda>s.
     set_performance_metric (sub_expr (v1_ffx s) fstar)))"

definition wc_no_lips1 :: "solver_config \<Rightarrow> rat \<Rightarrow> rat \<Rightarrow> int \<Rightarrow> error + (rat \<times> rat)" where
  \<comment> \<open>line 129: \<open>theoretical_tau = 1 / (gamma * n)\<close>\<close>
  "wc_no_lips1 cfg L gamma n =
     (case no_lips1_problem L gamma n new_problem of
        Inl err \<Rightarrow> Inl err
      | Inr (u, st) \<Rightarrow>
          (case solve cfg st of
             Inl err \<Rightarrow> Inl err
           | Inr (pepit_tau, d) \<Rightarrow>
               (case py_div 1 (gamma * of_int n) of
                  Inl err \<Rightarrow> Inl err
                | Inr theoretical_tau \<Rightarrow> Inr (pepit_tau, theoretical_tau))))"

subsection \<open>The example \<open>wc_improved_interior_algorithm\<close> (improved\_interior\_algorithm.py)\<close>

text \<open>
  \<open>np.sqrt\<close> is a floating-point function and a parameter of the model (\<open>sqrt_fn\<close>).
  \<open>alphak\<close> is a NumPy float, so \<open>alphak / ck\<close> does not raise on \<open>ck = 0\<close>; the last line,
  \<open>(4 * L) / (c * (n + 1) ** 2)\<close>, divides Python numbers and does.
  \<open>improved_interior_setup\<close> is lines 111 to 136, \<open>improved_interior_body\<close> the body of the
  loop (lines 138 to 145), \<open>improved_interior_problem\<close> everything before \<open>solve\<close>.
\<close>

record interior_vars =
  vi_x :: point
  vi_z :: point
  vi_g :: point
  vi_gh :: point
  vi_ck :: rat

definition improved_interior_setup ::
  "rat \<Rightarrow> rat \<Rightarrow> rat \<Rightarrow> ((fn \<times> fn \<times> fn) \<times> constraint \<times> expression \<times> interior_vars) op" where
  "improved_interior_setup L mu c =
     and_then (declare_function (SmoothConvexFunction L) None) (\<lambda>func1.
     and_then (declare_function (ConvexIndicatorFunction Infinite_diameter) None) (\<lambda>func2.
     and_then (declare_function (StronglyConvexFunction mu) (Some True)) (\<lambda>h.
     and_then (stationary_point (fn_add func1 func2)) (\<lambda>xs.
     and_then (fn_value (fn_add func1 func2) xs) (\<lambda>fs.
     and_then (fn_oracle h xs) (\<lambda>(ghs, hs).
     and_then set_initial_point (\<lambda>x0.
     and_then (fn_oracle h x0) (\<lambda>(gh0, h0).
     and_then (fn_oracle func1 x0) (\<lambda>(g10, f10).
     return ((func1, func2, h),
             leq (sub_expr (add_expr (scale_expr c
                     (sub_expr (sub_expr hs h0) (innerProduct gh0 (sub_points xs x0)))) f10) fs) 1,
             fs,
             \<lparr>vi_x = x0, vi_z = x0, vi_g = g10, vi_gh = gh0, vi_ck = c\<rparr>))))))))))"

definition improved_interior_body ::
  "(rat \<Rightarrow> rat) \<Rightarrow> fn \<times> fn \<times> fn \<Rightarrow> rat \<Rightarrow> nat \<Rightarrow> interior_vars \<Rightarrow> interior_vars op" where
  "improved_interior_body sqrt_fn fs lam i s =
     (case fs of (func1, func2, h) \<Rightarrow>
      let alphak = (sqrt_fn ((vi_ck s * lam) ^ 2 + 4 * vi_ck s * lam) - lam * vi_ck s) / 2;
          ck = (1 - alphak) * vi_ck s;
          y = add_points (scale_point (1 - alphak) (vi_x s)) (scale_point alphak (vi_z s))
      in
      and_then (if 1 \<le> i then and_then (fn_oracle func1 y) (\<lambda>(g, f). return g)
                else return (vi_g s)) (\<lambda>g.
      and_then (if ck = 0 then raise NotFinite else return (alphak / ck)) (\<lambda>step_size.
      and_then (bregman_gradient_step g (vi_gh s) (fn_add h func2) step_size) (\<lambda>(z, sz, hz).
      and_then (fn_oracle h z) (\<lambda>(gh, hz').
      return \<lparr>vi_x = add_points (scale_point (1 - alphak) (vi_x s)) (scale_point alphak z),
              vi_z = z, vi_g = g, vi_gh = gh, vi_ck = ck\<rparr>)))))"

definition improved_interior_problem ::
  "(rat \<Rightarrow> rat) \<Rightarrow> rat \<Rightarrow> rat \<Rightarrow> rat \<Rightarrow> rat \<Rightarrow> int \<Rightarrow> unit op" where
  "improved_interior_problem sqrt_fn L mu c lam n =
     and_then (improved_interior_setup L mu c) (\<lambda>(fs, initial_condition, fstar, s0).
     and_then (for_loop [0..<nat n] (improved_interior_body sqrt_fn fs lam) s0) (\<lambda>s.
     and_then (set_initial_condition initial_condition) (\<lambda>_.
     and_then (fn_value (fn_add (fst fs) (fst (snd fs))) (vi_x s)) (\<lambda>fx.
     set_performance_metric (sub_expr fx fstar)))))"

definition wc_improved_interior_algorithm ::
  "solver_config \<Rightarrow> (rat \<Rightarrow> rat) \<Rightarrow> rat \<Rightarrow> rat \<Rightarrow> rat \<Rightarrow> rat \<Rightarrow> int \<Rightarrow> error + (rat \<times> rat)" where
  "wc_improved_interior_algorithm cfg sqrt_fn L mu c lam n =
     (case improved_interior_problem sqrt_fn L mu c lam n new_problem of
        Inl err \<Rightarrow> Inl err
      | Inr (u, st) \<Rightarrow>
          (case solve cfg st of
             Inl err \<Rightarrow> Inl err
           | Inr (pepit_tau, d) \<Rightarrow>
               (case py_div (4 * L) (c * (of_int n + 1) ^ 2) of
                  Inl err \<Rightarrow> Inl err
                | Inr theoretical_tau \<Rightarrow> Inr (pepit_tau, theoretical_tau))))"

definition newton_sqrt :: "rat \<Rightarrow> rat" where
  \<comment> \<open>a rational stand-in for \<open>np.sqrt\<close> in the examples: two Newton steps from 1\<close>
  "newton_sqrt x = (((x + 1) / 2) + x / ((x + 1) / 2)) / 2"

definition triple_counts :: "problem_state \<Rightarrow> nat list" where
  "triple_counts st = map (\<lambda>f. length (triples f)) (funcs st)"

definition count_constraints :: "problem_state \<Rightarrow> error + nat list" where
  \<comment> \<open>the diagnostics' constraint counts per function\<close>
  "count_constraints st =
     (case interpolation_constraints st of Inl err \<Rightarrow> Inl err | Inr ics \<Rightarrow> Inr (map length ics))"

subsection \<open>Notions the properties are stated with\<close>

text \<open>
  \<open>cached st fid x g v\<close>: the declared function \<open>fid\<close> has the oracle triple \<open>(x, g, v)\<close> on
  record for the point \<open>x\<close>. \<open>evolves st st'\<close>: the state \<open>st'\<close> is reached from \<open>st\<close> by
  calls of the declaration interface (spec 6).
\<close>

definition cached :: "problem_state \<Rightarrow> nat \<Rightarrow> point \<Rightarrow> point \<Rightarrow> expression \<Rightarrow> bool" where
  "cached st fid x g v =
     (fid < length (funcs st)
      \<and> find (\<lambda>t. fst t = x) (triples (funcs st ! fid)) = Some (x, g, v))"

inductive evolves :: "problem_state \<Rightarrow> problem_state \<Rightarrow> bool" where
  ev_refl: "evolves st st"
| ev_declare: "evolves st st1 \<Longrightarrow> declare_function cls reuse st1 = Inr (f, st2) \<Longrightarrow> evolves st st2"
| ev_oracle: "evolves st st1 \<Longrightarrow> fn_oracle f x st1 = Inr (r, st2) \<Longrightarrow> evolves st st2"
| ev_stationary: "evolves st st1 \<Longrightarrow> stationary_point f st1 = Inr (x, st2) \<Longrightarrow> evolves st st2"
| ev_initial_point: "evolves st st1 \<Longrightarrow> set_initial_point st1 = Inr (x, st2) \<Longrightarrow> evolves st st2"
| ev_initial_condition:
    "evolves st st1 \<Longrightarrow> set_initial_condition c st1 = Inr (u, st2) \<Longrightarrow> evolves st st2"
| ev_metric: "evolves st st1 \<Longrightarrow> set_performance_metric e st1 = Inr (u, st2) \<Longrightarrow> evolves st st2"
| ev_step:
    "evolves st st1 \<Longrightarrow> bregman_gradient_step gx0 sx0 f gamma st1 = Inr (r3, st2) \<Longrightarrow> evolves st st2"

text \<open>
  What every call keeps: \<open>cache_le st st'\<close> says that \<open>st'\<close> has on record every oracle
  triple that \<open>st\<close> has, \<open>ids_ok\<close> that the ids of the registry are its positions, and
  \<open>points_distinct\<close> that no function has two triples for one point.
\<close>

definition cache_le :: "problem_state \<Rightarrow> problem_state \<Rightarrow> bool" where
  "cache_le st st' = (\<forall>fid x g v. cached st fid x g v \<longrightarrow> cached st' fid x g v)"

definition ids_ok :: "problem_state \<Rightarrow> bool" where
  "ids_ok st = (map bv_id (registry st) = [0..<length (registry st)])"

definition points_distinct :: "problem_state \<Rightarrow> bool" where
  "points_distinct st = list_all (\<lambda>f. distinct (map fst (triples f))) (funcs st)"

definition keeps :: "problem_state \<Rightarrow> problem_state \<Rightarrow> bool" where
  "keeps st st' =
     (cache_le st st'
      \<and> (ids_ok st \<longrightarrow> ids_ok st')
      \<and> (points_distinct st \<longrightarrow> points_distinct st')
      \<and> length (registry st) \<le> length (registry st')
      \<and> take (length (registry st)) (registry st') = registry st)"




text \<open>
  Three states for the examples: after \<open>declare_function\<close> and \<open>set_initial_point\<close>; then
  after the oracle of the function at the initial point; then after a Bregman gradient step
  of step size 1/2 from there, with the function as its own mirror map.
\<close>

definition example_state0 :: problem_state where
  "example_state0 =
     \<lparr>registry = [\<lparr>bv_id = 0, bv_kind = Point_kind, bv_owner = None\<rparr>],
      funcs = [\<lparr>fclass = ConvexFunction, reuse_gradient = None, triples = []\<rparr>],
      ledger = [], metrics = [], initial_point = Some [(0, 1)]\<rparr>"

definition example_state1 :: problem_state where
  "example_state1 =
     \<lparr>registry = [\<lparr>bv_id = 0, bv_kind = Point_kind, bv_owner = None\<rparr>,
                  \<lparr>bv_id = 1, bv_kind = Gradient_kind, bv_owner = Some 0\<rparr>,
                  \<lparr>bv_id = 2, bv_kind = Value_kind, bv_owner = Some 0\<rparr>],
      funcs = [\<lparr>fclass = ConvexFunction, reuse_gradient = None,
                triples = [([(0, 1)], [(1, 1)], \<lparr>lin = [(2, 1)], bil = []\<rparr>)]\<rparr>],
      ledger = [], metrics = [], initial_point = Some [(0, 1)]\<rparr>"

definition example_state2 :: problem_state where
  "example_state2 =
     \<lparr>registry = [\<lparr>bv_id = 0, bv_kind = Point_kind, bv_owner = None\<rparr>,
                  \<lparr>bv_id = 1, bv_kind = Gradient_kind, bv_owner = Some 0\<rparr>,
                  \<lparr>bv_id = 2, bv_kind = Value_kind, bv_owner = Some 0\<rparr>,
                  \<lparr>bv_id = 3, bv_kind = Point_kind, bv_owner = None\<rparr>,
                  \<lparr>bv_id = 4, bv_kind = Gradient_kind, bv_owner = Some 0\<rparr>,
                  \<lparr>bv_id = 5, bv_kind = Value_kind, bv_owner = Some 0\<rparr>],
      funcs = [\<lparr>fclass = ConvexFunction, reuse_gradient = None,
                triples = [([(0, 1)], [(1, 1)], \<lparr>lin = [(2, 1)], bil = []\<rparr>),
                           ([(3, 1)], [(4, 1)], \<lparr>lin = [(5, 1)], bil = []\<rparr>)]\<rparr>],
      ledger = [\<lparr>c_expr = \<lparr>lin = [], bil = [((1, 1), 1 / 4), ((1, 4), - 1), ((4, 4), 1)]\<rparr>,
                 c_rel = Eq, c_bound = 0, c_tag = Implicit_optimality\<rparr>],
      metrics = [], initial_point = Some [(0, 1)]\<rparr>"

definition example_adapter :: "sdp \<Rightarrow> nat \<Rightarrow> adapter_result" where
  \<comment> \<open>an adapter for the examples below: it reports an optimum of 2/3 and no duals\<close>
  "example_adapter p k =
     \<lparr>r_status = Optimal, r_message = ''optimal'', primal_value = 2 / 3, primal_G = [],
      primal_F = [], dual_value = 2 / 3, dual_scalars = [], dual_matrix = [],
      objective_weights = []\<rparr>"

definition example_config :: solver_config where
  "example_config = \<lparr>adapter = example_adapter, tolerance = 1 / 1000000\<rparr>"

section \<open>Properties\<close>

subsection \<open>Sequencing\<close>

lemma and_then_case:
  "and_then m f st = (case m st of Inl e \<Rightarrow> Inl e | Inr (a, st') \<Rightarrow> f a st')"
  by (cases "m st") (auto simp: and_then_def)

lemma and_then_Inr:
  "and_then m f st = Inr (r, st'') \<longleftrightarrow> (\<exists>a st'. m st = Inr (a, st') \<and> f a st' = Inr (r, st''))"
  by (auto simp: and_then_case split: sum.splits)

lemma and_thenE:
  assumes "and_then m f st = Inr (r, st'')"
  obtains a st' where "m st = Inr (a, st')" and "f a st' = Inr (r, st'')"
proof -
  from assms have "\<exists>a st'. m st = Inr (a, st') \<and> f a st' = Inr (r, st'')"
    by (simp only: and_then_Inr)
  then obtain a st' where "m st = Inr (a, st')" and "f a st' = Inr (r, st'')"
    by (elim exE conjE)
  then show ?thesis by (rule that)
qed

lemma return_Inr: "return a st = Inr (r, st') \<longleftrightarrow> r = a \<and> st' = st"
  by (auto simp: return_def)


subsection \<open>Canonical pair keys and the symmetry of the Gram form\<close>




























subsection \<open>What the engine calls keep\<close>

lemma cached_funcs: "funcs st' = funcs st \<Longrightarrow> cached st' = cached st"
  by (intro ext) (simp add: cached_def)

lemma keeps_refl: "keeps st st"
  by (simp add: keeps_def cache_le_def)

lemma keeps_trans: "keeps st st1 \<Longrightarrow> keeps st1 st2 \<Longrightarrow> keeps st st2"
proof -
  assume a: "keeps st st1" and b: "keeps st1 st2"
  have c: "cache_le st st2"
    using a b by (simp add: keeps_def cache_le_def)
  have l1: "length (registry st) \<le> length (registry st1)"
    and t1: "take (length (registry st)) (registry st1) = registry st"
    using a by (simp_all add: keeps_def)
  have l2: "length (registry st1) \<le> length (registry st2)"
    and t2: "take (length (registry st1)) (registry st2) = registry st1"
    using b by (simp_all add: keeps_def)
  have "take (length (registry st)) (registry st2)
        = take (length (registry st)) (take (length (registry st1)) (registry st2))"
    using l1 by (simp add: min_def)
  then have t: "take (length (registry st)) (registry st2) = registry st"
    using t1 t2 by simp
  show ?thesis
    using a b c l1 l2 t by (simp add: keeps_def)
qed

lemma keeps_same_funcs:
  "funcs st' = funcs st \<Longrightarrow> registry st' = registry st \<Longrightarrow> keeps st st'"
  by (simp add: keeps_def cache_le_def cached_def ids_ok_def points_distinct_def)

lemma ids_ok_append:
  "ids_ok st \<Longrightarrow> registry st' = registry st @ [\<lparr>bv_id = length (registry st), bv_kind = k, bv_owner = own\<rparr>]
   \<Longrightarrow> ids_ok st'"
  by (simp add: ids_ok_def)

lemma new_basis_Inr:
  "new_basis k own st = Inr (i, st') \<longleftrightarrow>
     i = length (registry st)
     \<and> st' = st\<lparr>registry := registry st @ [\<lparr>bv_id = length (registry st), bv_kind = k, bv_owner = own\<rparr>]\<rparr>"
  by (auto simp: new_basis_def)

lemma new_basis_keeps: "new_basis k own st = Inr (i, st') \<Longrightarrow> keeps st st'"
  by (simp add: new_basis_Inr keeps_def cache_le_def cached_def ids_ok_def points_distinct_def)

lemma new_point_Inr:
  "new_point st = Inr (x, st') \<longleftrightarrow>
     x = basis_point (length (registry st))
     \<and> st' = st\<lparr>registry := registry st @ [\<lparr>bv_id = length (registry st), bv_kind = Point_kind, bv_owner = None\<rparr>]\<rparr>"
  by (auto simp: new_point_def and_then_Inr new_basis_Inr return_Inr)

lemma new_point_keeps: "new_point st = Inr (x, st') \<Longrightarrow> keeps st st'"
  by (simp add: new_point_Inr keeps_def cache_le_def cached_def ids_ok_def points_distinct_def)


lemma leaf_oracle_hit: "cached st fid x g v \<Longrightarrow> leaf_oracle fid x st = Inr ((g, v), st)"
  by (simp add: cached_def leaf_oracle_def)

lemma leaf_oracle_cases:
  assumes "leaf_oracle fid x st = Inr ((g, v), st')"
  shows "(cached st fid x g v \<and> st' = st)
       \<or> (fid < length (funcs st)
          \<and> find (\<lambda>t. fst t = x) (triples (funcs st ! fid)) = None
          \<and> g = basis_point (length (registry st))
          \<and> v = value_expr (Suc (length (registry st)))
          \<and> registry st' = registry st
               @ [\<lparr>bv_id = length (registry st), bv_kind = Gradient_kind, bv_owner = Some fid\<rparr>,
                  \<lparr>bv_id = Suc (length (registry st)), bv_kind = Value_kind, bv_owner = Some fid\<rparr>]
          \<and> funcs st' = (funcs st)[fid := (funcs st ! fid)
                 \<lparr>triples := triples (funcs st ! fid) @ [(x, g, v)]\<rparr>]
          \<and> ledger st' = ledger st \<and> metrics st' = metrics st
          \<and> initial_point st' = initial_point st)"
proof (cases "find (\<lambda>t. fst t = x) (triples (funcs st ! fid))")
  case None
  with assms show ?thesis
    by (auto simp: leaf_oracle_def and_then_case new_basis_def split: if_splits)
next
  case (Some t)
  then have "fst t = x"
    by (auto simp: find_Some_iff)
  with Some assms show ?thesis
    by (cases t) (auto simp: leaf_oracle_def cached_def split: if_splits)
qed

lemma list_all_update: "list_all P xs \<Longrightarrow> P y \<Longrightarrow> list_all P (xs[i := y])"
  by (induction xs arbitrary: i) (auto split: nat.splits)

lemma find_append_Some: "find P xs = Some y \<Longrightarrow> find P (xs @ ys) = Some y"
  by (induction xs) auto

lemma find_append_None: "find P xs = None \<Longrightarrow> find P (xs @ ys) = find P ys"
  by (induction xs) (auto split: if_splits)

lemma leaf_oracle_keeps:
  assumes "leaf_oracle fid x st = Inr (r, st')"
  shows "keeps st st'"
proof -
  obtain g v where r: "r = (g, v)" by (cases r)
  from leaf_oracle_cases [OF assms [unfolded r]] show ?thesis
  proof (elim disjE conjE)
    assume "st' = st"
    then show ?thesis by (simp add: keeps_refl)
  next
    assume fid: "fid < length (funcs st)"
      and none: "find (\<lambda>t. fst t = x) (triples (funcs st ! fid)) = None"
      and reg: "registry st' = registry st
               @ [\<lparr>bv_id = length (registry st), bv_kind = Gradient_kind, bv_owner = Some fid\<rparr>,
                  \<lparr>bv_id = Suc (length (registry st)), bv_kind = Value_kind, bv_owner = Some fid\<rparr>]"
      and fs: "funcs st' = (funcs st)[fid := (funcs st ! fid)
                 \<lparr>triples := triples (funcs st ! fid) @ [(x, g, v)]\<rparr>]"
    have c: "cache_le st st'"
      unfolding cache_le_def cached_def
    proof (intro allI impI, elim conjE)
      fix fid' x' g' v'
      assume a: "fid' < length (funcs st)"
        and b: "find (\<lambda>t. fst t = x') (triples (funcs st ! fid')) = Some (x', g', v')"
      show "fid' < length (funcs st') \<and>
            find (\<lambda>t. fst t = x') (triples (funcs st' ! fid')) = Some (x', g', v')"
      proof (cases "fid' = fid")
        case True
        with a b fs show ?thesis by (simp add: find_append_Some)
      next
        case False
        with a b fs show ?thesis by simp
      qed
    qed
    have i: "ids_ok st \<Longrightarrow> ids_ok st'"
      using reg by (simp add: ids_ok_def)
    have "x \<notin> fst ` set (triples (funcs st ! fid))"
      using none by (auto simp: find_None_iff)
    then have d: "distinct (map fst (triples (funcs st ! fid) @ [(x, g, v)]))"
      if "distinct (map fst (triples (funcs st ! fid)))"
      using that by simp
    have p: "points_distinct st \<Longrightarrow> points_distinct st'"
      unfolding points_distinct_def fs
    proof (rule list_all_update)
      assume a: "list_all (\<lambda>f. distinct (map fst (triples f))) (funcs st)"
      then show "list_all (\<lambda>f. distinct (map fst (triples f))) (funcs st)" .
      from a fid have "distinct (map fst (triples (funcs st ! fid)))"
        by (simp add: list_all_length)
      then show "distinct (map fst (triples ((funcs st ! fid)
                 \<lparr>triples := triples (funcs st ! fid) @ [(x, g, v)]\<rparr>)))"
        using d by simp
    qed
    show ?thesis
      using c i p reg by (simp add: keeps_def)
  qed
qed

lemma leaf_oracle_cached:
  assumes "leaf_oracle fid x st = Inr ((g, v), st')"
  shows "cached st' fid x g v"
  using leaf_oracle_cases [OF assms]
  by (auto simp: cached_def find_append_None)

lemma leaf_oracle_frame:
  assumes "leaf_oracle fid x st = Inr (r, st')"
  shows "ledger st' = ledger st \<and> metrics st' = metrics st \<and> initial_point st' = initial_point st
         \<and> length (funcs st') = length (funcs st)
         \<and> map fclass (funcs st') = map fclass (funcs st)"
proof -
  obtain g v where r: "r = (g, v)" by (cases r)
  from leaf_oracle_cases [OF assms [unfolded r]] show ?thesis
    by (auto simp: map_update list_eq_iff_nth_eq nth_list_update)
qed


lemma oracle_leaves_Cons:
  "oracle_leaves ((fid, w) # fs) x acc st = Inr (r, st'') \<longleftrightarrow>
     (\<exists>g v st'. leaf_oracle fid x st = Inr ((g, v), st')
        \<and> oracle_leaves fs x (add_points (fst acc) (scale_point w g),
                               add_expr (snd acc) (scale_expr w v)) st' = Inr (r, st''))"
  by (auto simp: and_then_Inr)

lemma oracle_leaves_keeps:
  "oracle_leaves f x acc st = Inr (r, st') \<Longrightarrow> keeps st st'"
proof (induction f arbitrary: acc st)
  case Nil
  then show ?case by (simp add: return_Inr keeps_refl)
next
  case (Cons a f)
  obtain fid w where a: "a = (fid, w)" by (cases a)
  from Cons.prems obtain g v st1 where
    l: "leaf_oracle fid x st = Inr ((g, v), st1)"
    and o: "oracle_leaves f x (add_points (fst acc) (scale_point w g),
                               add_expr (snd acc) (scale_expr w v)) st1 = Inr (r, st')"
    unfolding a oracle_leaves_Cons by blast
  from leaf_oracle_keeps [OF l] Cons.IH [OF o] show ?case
    by (rule keeps_trans)
qed

lemma oracle_leaves_frame:
  "oracle_leaves f x acc st = Inr (r, st') \<Longrightarrow>
     ledger st' = ledger st \<and> metrics st' = metrics st \<and> initial_point st' = initial_point st
     \<and> length (funcs st') = length (funcs st) \<and> map fclass (funcs st') = map fclass (funcs st)"
proof (induction f arbitrary: acc st)
  case Nil
  then show ?case by (simp add: return_Inr)
next
  case (Cons a f)
  obtain fid w where a: "a = (fid, w)" by (cases a)
  from Cons.prems obtain g v st1 where
    l: "leaf_oracle fid x st = Inr ((g, v), st1)"
    and o: "oracle_leaves f x (add_points (fst acc) (scale_point w g),
                               add_expr (snd acc) (scale_expr w v)) st1 = Inr (r, st')"
    unfolding a oracle_leaves_Cons by blast
  from leaf_oracle_frame [OF l] Cons.IH [OF o] show ?case
    by simp
qed

lemma oracle_leaves_again:
  "oracle_leaves f x acc st = Inr (r, st') \<Longrightarrow> cache_le st' st''
   \<Longrightarrow> oracle_leaves f x acc st'' = Inr (r, st'')"
proof (induction f arbitrary: acc st)
  case Nil
  then show ?case by (simp add: return_def)
next
  case (Cons a f)
  obtain fid w where a: "a = (fid, w)" by (cases a)
  from Cons.prems(1) obtain g v st1 where
    l: "leaf_oracle fid x st = Inr ((g, v), st1)"
    and o: "oracle_leaves f x (add_points (fst acc) (scale_point w g),
                               add_expr (snd acc) (scale_expr w v)) st1 = Inr (r, st')"
    unfolding a oracle_leaves_Cons by blast
  have "cached st1 fid x g v"
    using l by (rule leaf_oracle_cached)
  moreover have "cache_le st1 st'"
    using oracle_leaves_keeps [OF o] by (simp add: keeps_def)
  ultimately have "cached st'' fid x g v"
    using Cons.prems(2) by (simp add: cache_le_def)
  then have l2: "leaf_oracle fid x st'' = Inr ((g, v), st'')"
    by (rule leaf_oracle_hit)
  from Cons.IH [OF o Cons.prems(2)] l2 show ?case
    unfolding a oracle_leaves_Cons by blast
qed

lemma fn_oracle_keeps: "fn_oracle f x st = Inr (r, st') \<Longrightarrow> keeps st st'"
  unfolding fn_oracle_def by (rule oracle_leaves_keeps)

lemma fn_oracle_frame:
  "fn_oracle f x st = Inr (r, st') \<Longrightarrow>
     ledger st' = ledger st \<and> metrics st' = metrics st \<and> initial_point st' = initial_point st
     \<and> length (funcs st') = length (funcs st) \<and> map fclass (funcs st') = map fclass (funcs st)"
  unfolding fn_oracle_def by (rule oracle_leaves_frame)

lemma fn_oracle_again:
  "fn_oracle f x st = Inr (r, st') \<Longrightarrow> cache_le st' st'' \<Longrightarrow> fn_oracle f x st'' = Inr (r, st'')"
  unfolding fn_oracle_def by (rule oracle_leaves_again)

lemma add_constraint_Inr:
  "add_constraint c st = Inr (u, st') \<longleftrightarrow> st' = st\<lparr>ledger := ledger st @ [c]\<rparr>"
  by (auto simp: add_constraint_def)

lemma add_constraint_keeps: "add_constraint c st = Inr (u, st') \<Longrightarrow> keeps st st'"
  by (simp add: add_constraint_Inr keeps_same_funcs)

lemma set_performance_metric_Inr:
  "set_performance_metric e st = Inr (u, st') \<longleftrightarrow> st' = st\<lparr>metrics := metrics st @ [e]\<rparr>"
  by (auto simp: set_performance_metric_def)

lemma set_performance_metric_keeps: "set_performance_metric e st = Inr (u, st') \<Longrightarrow> keeps st st'"
  by (simp add: set_performance_metric_Inr keeps_same_funcs)

lemma set_initial_condition_keeps: "set_initial_condition c st = Inr (u, st') \<Longrightarrow> keeps st st'"
  unfolding set_initial_condition_def by (rule add_constraint_keeps)

lemma set_initial_point_Inr:
  "set_initial_point st = Inr (x, st') \<longleftrightarrow>
     x = basis_point (length (registry st))
     \<and> st' = st\<lparr>registry := registry st @ [\<lparr>bv_id = length (registry st), bv_kind = Point_kind, bv_owner = None\<rparr>],
               initial_point := Some x\<rparr>"
  by (auto simp: set_initial_point_def and_then_Inr new_point_Inr)

lemma set_initial_point_keeps: "set_initial_point st = Inr (x, st') \<Longrightarrow> keeps st st'"
  by (simp add: set_initial_point_Inr keeps_def cache_le_def cached_def ids_ok_def points_distinct_def)

lemma declare_function_Inr:
  "declare_function cls reuse st = Inr (f, st') \<longleftrightarrow>
     f = [(length (funcs st), 1)]
     \<and> st' = st\<lparr>funcs := funcs st @ [\<lparr>fclass = cls, reuse_gradient = reuse, triples = []\<rparr>]\<rparr>"
  by (auto simp: declare_function_def)

lemma declare_function_keeps: "declare_function cls reuse st = Inr (f, st') \<Longrightarrow> keeps st st'"
  by (simp add: declare_function_Inr keeps_def cache_le_def cached_def ids_ok_def
      points_distinct_def nth_append)

lemma bregman_gradient_step_Inr:
  "bregman_gradient_step gx0 sx0 mm gamma st = Inr ((x, sx, hx), st') \<longleftrightarrow>
     (\<exists>st1 st2. new_point st = Inr (x, st1) \<and> fn_oracle mm x st1 = Inr ((sx, hx), st2)
        \<and> st' = st2\<lparr>ledger := ledger st2
             @ [residual_zero (add_points (sub_points sx sx0) (scale_point gamma gx0))]\<rparr>)"
  by (auto simp: bregman_gradient_step_def and_then_Inr return_Inr add_constraint_Inr)

lemma bregman_gradient_step_keeps:
  assumes "bregman_gradient_step gx0 sx0 mm gamma st = Inr (r, st')"
  shows "keeps st st'"
proof -
  obtain x sx hx where r: "r = (x, sx, hx)" by (cases r)
  from assms obtain st1 st2 where
    a: "new_point st = Inr (x, st1)" and b: "fn_oracle mm x st1 = Inr ((sx, hx), st2)"
    and c: "st' = st2\<lparr>ledger := ledger st2
             @ [residual_zero (add_points (sub_points sx sx0) (scale_point gamma gx0))]\<rparr>"
    unfolding r bregman_gradient_step_Inr by blast
  have "keeps st2 st'"
    using c by (simp add: keeps_same_funcs)
  with new_point_keeps [OF a] fn_oracle_keeps [OF b] show ?thesis
    by (blast intro: keeps_trans)
qed

lemma stationary_point_Inr:
  "stationary_point f st = Inr (x, st') \<longleftrightarrow>
     (\<exists>g v st1 st2. new_point st = Inr (x, st1) \<and> fn_oracle f x st1 = Inr ((g, v), st2)
        \<and> st' = st2\<lparr>ledger := ledger st2 @ [residual_zero g]\<rparr>)"
  by (auto simp: stationary_point_def and_then_Inr return_Inr add_constraint_Inr)

lemma stationary_point_keeps:
  assumes "stationary_point f st = Inr (x, st')"
  shows "keeps st st'"
proof -
  from assms obtain g v st1 st2 where
    a: "new_point st = Inr (x, st1)" and b: "fn_oracle f x st1 = Inr ((g, v), st2)"
    and c: "st' = st2\<lparr>ledger := ledger st2 @ [residual_zero g]\<rparr>"
    unfolding stationary_point_Inr by blast
  have "keeps st2 st'"
    using c by (simp add: keeps_same_funcs)
  with new_point_keeps [OF a] fn_oracle_keeps [OF b] show ?thesis
    by (blast intro: keeps_trans)
qed

lemma evolves_keeps: "evolves st st' \<Longrightarrow> keeps st st'"
proof (induction rule: evolves.induct)
  case (ev_refl st)
  show ?case by (rule keeps_refl)
next
  case (ev_declare st st1 cls reuse f st2)
  then show ?case by (blast intro: keeps_trans declare_function_keeps)
next
  case (ev_oracle st st1 f x r st2)
  then show ?case by (blast intro: keeps_trans fn_oracle_keeps)
next
  case (ev_stationary st st1 f x st2)
  then show ?case by (blast intro: keeps_trans stationary_point_keeps)
next
  case (ev_initial_point st st1 x st2)
  then show ?case by (blast intro: keeps_trans set_initial_point_keeps)
next
  case (ev_initial_condition st st1 c u st2)
  then show ?case by (blast intro: keeps_trans set_initial_condition_keeps)
next
  case (ev_metric st st1 e u st2)
  then show ?case by (blast intro: keeps_trans set_performance_metric_keeps)
next
  case (ev_step st st1 gx0 sx0 f gamma r3 st2)
  then show ?case by (blast intro: keeps_trans bregman_gradient_step_keeps)
qed

lemma new_problem_ok: "ids_ok new_problem \<and> points_distinct new_problem"
  by (simp add: new_problem_def ids_ok_def points_distinct_def)













subsection \<open>The oracle gives one gradient and value per function and point\<close>


subsection \<open>The Bregman gradient step\<close>


text \<open>
  C6. The Bregman gradient step returns as its output a new basis point: its id was not
  in the registry before, and the step appends its basis vector. The point is not a
  combination of earlier points. The step adds one constraint to the ledger, the
  first-order condition \<open>\<langle>r, r\<rangle> = 0\<close> with \<open>r = sx - sx0 + gamma * gx0\<close>, where \<open>(sx, hx)\<close>
  is what the oracle of the mirror map gives at the new point.
\<close>

theorem bregman_step_fresh_unknown:
  assumes "evolves new_problem st"
    and "bregman_gradient_step gx0 sx0 mm gamma st = Inr ((x, sx, hx), st')"
  shows "x = basis_point (length (registry st))
       \<and> length (registry st) \<notin> set (map bv_id (registry st))
       \<and> take (Suc (length (registry st))) (registry st')
           = registry st @ [\<lparr>bv_id = length (registry st), bv_kind = Point_kind, bv_owner = None\<rparr>]
       \<and> ledger st' = ledger st
           @ [\<lparr>c_expr = innerProduct (add_points (sub_points sx sx0) (scale_point gamma gx0))
                                     (add_points (sub_points sx sx0) (scale_point gamma gx0)),
               c_rel = Eq, c_bound = 0, c_tag = Implicit_optimality\<rparr>]
       \<and> fn_oracle mm x st' = Inr ((sx, hx), st')"
proof -
  from assms(2) obtain st1 st2 where
    a: "new_point st = Inr (x, st1)" and b: "fn_oracle mm x st1 = Inr ((sx, hx), st2)"
    and c: "st' = st2\<lparr>ledger := ledger st2
             @ [residual_zero (add_points (sub_points sx sx0) (scale_point gamma gx0))]\<rparr>"
    unfolding bregman_gradient_step_Inr by blast
  have x: "x = basis_point (length (registry st))"
    using a by (simp add: new_point_Inr)
  have r1: "registry st1 = registry st
            @ [\<lparr>bv_id = length (registry st), bv_kind = Point_kind, bv_owner = None\<rparr>]"
    and l1: "ledger st1 = ledger st"
    using a by (simp_all add: new_point_Inr)
  have "ids_ok st"
    using evolves_keeps [OF assms(1)] new_problem_ok by (simp add: keeps_def)
  then have fresh: "length (registry st) \<notin> set (map bv_id (registry st))"
    by (simp add: ids_ok_def)
  have k: "keeps st1 st2"
    using b by (rule fn_oracle_keeps)
  have "take (length (registry st1)) (registry st2) = registry st1"
    using k by (simp add: keeps_def)
  then have t: "take (Suc (length (registry st))) (registry st')
      = registry st @ [\<lparr>bv_id = length (registry st), bv_kind = Point_kind, bv_owner = None\<rparr>]"
    unfolding c r1 by simp
  have l: "ledger st' = ledger st
      @ [residual_zero (add_points (sub_points sx sx0) (scale_point gamma gx0))]"
    using fn_oracle_frame [OF b] l1 c by simp
  have "cache_le st2 st'"
    unfolding c by (simp add: cache_le_def cached_def)
  then have o: "fn_oracle mm x st' = Inr ((sx, hx), st')"
    using b by (rule fn_oracle_again [rotated])
  show ?thesis
    using x fresh t l o by (simp add: residual_zero_def eq_def)
qed

subsection \<open>The example states\<close>

lemma example_state0_reached: "evolves new_problem example_state0"
proof -
  have d: "declare_function ConvexFunction None new_problem =
      Inr ([(0, 1)], \<lparr>registry = [],
        funcs = [\<lparr>fclass = ConvexFunction, reuse_gradient = None, triples = []\<rparr>],
        ledger = [], metrics = [], initial_point = None\<rparr>)"
    by code_simp
  have p: "set_initial_point \<lparr>registry = [],
        funcs = [\<lparr>fclass = ConvexFunction, reuse_gradient = None, triples = []\<rparr>],
        ledger = [], metrics = [], initial_point = None\<rparr> = Inr ([(0, 1)], example_state0)"
    by code_simp
  show ?thesis
    by (rule ev_initial_point [OF ev_declare [OF ev_refl d] p])
qed

lemma example_state1_oracle:
  "fn_oracle [(0, 1)] [(0, 1)] example_state0
     = Inr (([(1, 1)], \<lparr>lin = [(2, 1)], bil = []\<rparr>), example_state1)"
  by code_simp

lemma example_state2_step:
  "bregman_gradient_step [(1, 1)] [(1, 1)] [(0, 1)] (1 / 2) example_state1
     = Inr (([(3, 1)], [(4, 1)], \<lparr>lin = [(5, 1)], bil = []\<rparr>), example_state2)"
  by code_simp


theorem bregman_step_fresh_unknown_witness:
  "[(3, 1)] = basis_point (length (registry example_state1))
   \<and> length (registry example_state1) \<notin> set (map bv_id (registry example_state1))
   \<and> take (Suc (length (registry example_state1))) (registry example_state2)
       = registry example_state1
         @ [\<lparr>bv_id = length (registry example_state1), bv_kind = Point_kind, bv_owner = None\<rparr>]
   \<and> ledger example_state2 = ledger example_state1
       @ [\<lparr>c_expr = innerProduct (add_points (sub_points [(4, 1)] [(1, 1)]) (scale_point (1 / 2) [(1, 1)]))
                                 (add_points (sub_points [(4, 1)] [(1, 1)]) (scale_point (1 / 2) [(1, 1)])),
           c_rel = Eq, c_bound = 0, c_tag = Implicit_optimality\<rparr>]
   \<and> fn_oracle [(0, 1)] [(3, 1)] example_state2
       = Inr (([(4, 1)], \<lparr>lin = [(5, 1)], bil = []\<rparr>), example_state2)"
  by (rule bregman_step_fresh_unknown
        [OF ev_oracle [OF example_state0_reached example_state1_oracle] example_state2_step])

subsection \<open>The performance metrics of the two NoLips examples\<close>






























subsection \<open>\<open>wc_no_lips2\<close> with one iteration\<close>

lemma py_div_zero: "py_div a 0 = Inl ZeroDivisionError"
  by (simp add: py_div_def)

text \<open>
  C9. For \<open>n = 1\<close> and any \<open>L\<close>, \<open>gamma\<close> and solver, \<open>wc_no_lips2\<close> never returns its pair
  of values; whenever the script gets past \<open>solve\<close> (line 88 gave a \<open>pepit_tau\<close>), the
  division \<open>2 / (n - 1)\<close> of line 91 raises \<open>ZeroDivisionError\<close>.
\<close>

theorem wc_no_lips2_one_iteration_raises:
  "(\<forall>r. wc_no_lips2 cfg L gamma 1 \<noteq> Inr r)
   \<and> (\<forall>tau. no_lips2_solve cfg L gamma 1 = Inr tau
        \<longrightarrow> wc_no_lips2 cfg L gamma 1 = Inl ZeroDivisionError)"
  by (simp add: wc_no_lips2_def py_div_zero split: sum.splits)

theorem wc_no_lips2_one_iteration_raises_witness:
  "no_lips2_solve example_config 1 1 1 = Inr (2 / 3)
   \<and> wc_no_lips2 example_config 1 1 1 = Inl ZeroDivisionError"
proof -
  have h: "no_lips2_solve example_config 1 1 1 = Inr (2 / 3)"
    by code_simp
  note r = wc_no_lips2_one_iteration_raises
    [of example_config 1 1, THEN conjunct2, THEN spec, THEN mp, OF h]
  show ?thesis using h r by (intro conjI)
qed

end
